theory Spec2Isabelle
  imports Complex_Main
begin

section \<open>Quote pricing (routers/quotes.py)\<close>

text \<open>
  Python's unbounded integers are \<open>int\<close>. Prices are Python floats in the source; they are
  modelled by exact rationals, so a result stated here is the exact value of which the float
  is the rounding. A dictionary read with \<open>d[k]\<close> raises \<open>KeyError\<close> on a missing key and
  is a case split on the map; \<open>d.get(k, v)\<close> is \<open>dict_get\<close>. The pax dictionary is a map,
  since callers pass it as it came in the request. An option is a record of the keys the
  code reads: \<open>hotels\<close>, and the price of each hotel and add-on, are always read with
  \<open>[...]\<close> and are plain fields; \<open>add_ons\<close>, \<open>markup\<close> and \<open>markup_type\<close> are read with
  \<open>.get\<close> and are optional. The tier of an agent is a nullable column.
\<close>

datatype error = KeyError string | HTTPException nat string | TypeError | IntegrityError

datatype TierLevel = BRONZE | SILVER | GOLD | PLATINUM

fun TIER_DISCOUNTS :: "TierLevel \<rightharpoonup> int" where
  "TIER_DISCOUNTS BRONZE = Some 5"
| "TIER_DISCOUNTS SILVER = Some 10"
| "TIER_DISCOUNTS GOLD = Some 15"
| "TIER_DISCOUNTS PLATINUM = Some 20"

record vehicle =
  vehicle_type :: string
  capacity :: int
  price_per_day :: int

definition VEHICLE_PRICING :: "vehicle list" where
  "VEHICLE_PRICING =
     [\<lparr>vehicle_type = ''Avanza'', capacity = 6, price_per_day = 35\<rparr>,
      \<lparr>vehicle_type = ''Innova'', capacity = 8, price_per_day = 45\<rparr>,
      \<lparr>vehicle_type = ''ELF'', capacity = 15, price_per_day = 65\<rparr>,
      \<lparr>vehicle_type = ''Bus'', capacity = 25, price_per_day = 85\<rparr>]"

record room_calc =
  rooms :: int
  total_occupants :: int
  children_without_bed :: int

text \<open>Python's \<open>//\<close> is floor division, which is \<open>div\<close> on \<open>int\<close>.\<close>

definition calculate_rooms :: "int \<Rightarrow> int \<Rightarrow> int \<Rightarrow> room_calc" where
  "calculate_rooms adults child_with_bed child_without_bed =
     (let total_bed_occupants = adults + child_with_bed;
          rooms = (total_bed_occupants + 1) div 2
      in \<lparr>rooms = max 1 rooms,
          total_occupants = total_bed_occupants,
          children_without_bed = child_without_bed\<rparr>)"

text \<open>The \<open>for\<close> loop of \<open>select_vehicle\<close>, returning at the first tier that fits.\<close>

fun first_fitting :: "int \<Rightarrow> vehicle list \<Rightarrow> vehicle option" where
  "first_fitting total_pax [] = None"
| "first_fitting total_pax (v # vs) =
     (if total_pax \<le> capacity v then Some v else first_fitting total_pax vs)"

definition select_vehicle :: "int \<Rightarrow> vehicle" where
  "select_vehicle total_pax =
     (case first_fitting total_pax VEHICLE_PRICING of
        Some v \<Rightarrow> v
      | None \<Rightarrow> last VEHICLE_PRICING)"

record package =
  pkg_id :: string
  duration :: int
  nights :: "int list"
  base_price :: rat

record agent =
  tier :: "TierLevel option"

record hotel =
  price_per_night :: rat

record addon =
  price :: rat

record quote_option =
  hotels :: "hotel list"
  add_ons :: "addon list option"
  markup :: "rat option"
  markup_type :: "string option"

record pricing_breakdown =
  pb_base_price :: rat
  pb_hotel_cost :: rat
  pb_vehicle_cost :: rat
  pb_addon_cost :: rat
  pb_tier_discount :: rat
  pb_markup :: rat
  pb_final_price :: rat

type_synonym pax = "string \<rightharpoonup> int"

definition dict_get :: "('k \<rightharpoonup> 'v) \<Rightarrow> 'k \<Rightarrow> 'v \<Rightarrow> 'v" where
  "dict_get d k dflt = (case d k of Some v \<Rightarrow> v | None \<Rightarrow> dflt)"

text \<open>
  The value the loop variable \<open>nights\<close> takes for the hotel entry at index \<open>i\<close>:
  \<open>package.nights[i] if i < len(package.nights) else 1\<close>.
\<close>

definition nights_at :: "int list \<Rightarrow> nat \<Rightarrow> int" where
  "nights_at ns i = (if i < length ns then ns ! i else 1)"

text \<open>
  The loop \<open>for i, hotel in enumerate(option["hotels"])\<close>: \<open>i\<close> is the index of the
  next entry and \<open>acc\<close> the running \<open>hotel_cost\<close>.
\<close>

fun hotel_loop :: "int list \<Rightarrow> int \<Rightarrow> nat \<Rightarrow> hotel list \<Rightarrow> rat \<Rightarrow> rat" where
  "hotel_loop ns rms i [] acc = acc"
| "hotel_loop ns rms i (h # hs) acc =
     hotel_loop ns rms (Suc i) hs
       (acc + price_per_night h * of_int (nights_at ns i) * of_int rms)"

text \<open>
  The values of the loop variable \<open>nights\<close>, one for each iteration of the same loop,
  in order.
\<close>

fun nights_used :: "int list \<Rightarrow> nat \<Rightarrow> hotel list \<Rightarrow> int list" where
  "nights_used ns i [] = []"
| "nights_used ns i (h # hs) = nights_at ns i # nights_used ns (Suc i) hs"

fun addon_loop :: "int \<Rightarrow> addon list \<Rightarrow> rat \<Rightarrow> rat" where
  "addon_loop total_pax [] acc = acc"
| "addon_loop total_pax (a # as) acc = addon_loop total_pax as (acc + price a * of_int total_pax)"

text \<open>
  The body of the loop over the options. \<open>pax["total"]\<close> is read first, then
  \<open>pax["adults"]\<close>; the other two counts are read with a default of 0.
\<close>

definition price_option :: "package \<Rightarrow> pax \<Rightarrow> agent \<Rightarrow> quote_option \<Rightarrow> error + pricing_breakdown" where
  "price_option pkg px ag opt =
     (case px ''total'' of
        None \<Rightarrow> Inl (KeyError ''total'')
      | Some total_pax \<Rightarrow>
     (case px ''adults'' of
        None \<Rightarrow> Inl (KeyError ''adults'')
      | Some adults \<Rightarrow>
        (let base = base_price pkg * of_int total_pax;
             rc = calculate_rooms adults
                    (dict_get px ''child_with_bed'' 0) (dict_get px ''child_without_bed'' 0);
             hotel_cost = hotel_loop (nights pkg) (rooms rc) 0 (hotels opt) 0;
             vehicle = select_vehicle total_pax;
             vehicle_cost = of_int (price_per_day vehicle * duration pkg);
             addon_cost = addon_loop total_pax (case add_ons opt of Some as \<Rightarrow> as | None \<Rightarrow> []) 0;
             subtotal = base + hotel_cost + vehicle_cost + addon_cost;
             tier_discount_amount =
               of_int ((case tier ag of
                          None \<Rightarrow> 0
                        | Some t \<Rightarrow> (case TIER_DISCOUNTS t of Some d \<Rightarrow> d | None \<Rightarrow> 0)) * total_pax);
             discounted_price = subtotal - tier_discount_amount;
             markup_amount0 = (case markup opt of Some m \<Rightarrow> m | None \<Rightarrow> 0);
             markup_amount =
               (if markup_type opt = Some ''percentage''
                then discounted_price * (markup_amount0 / 100)
                else markup_amount0);
             final = discounted_price + markup_amount
         in Inr \<lparr>pb_base_price = base,
                 pb_hotel_cost = hotel_cost,
                 pb_vehicle_cost = vehicle_cost,
                 pb_addon_cost = addon_cost,
                 pb_tier_discount = tier_discount_amount,
                 pb_markup = markup_amount,
                 pb_final_price = final\<rparr>)))"

fun calculate_quote_pricing ::
  "package \<Rightarrow> quote_option list \<Rightarrow> pax \<Rightarrow> agent \<Rightarrow> error + pricing_breakdown list" where
  "calculate_quote_pricing pkg [] px ag = Inr []"
| "calculate_quote_pricing pkg (opt # opts) px ag =
     (case price_option pkg px ag opt of
        Inl e \<Rightarrow> Inl e
      | Inr b \<Rightarrow>
          (case calculate_quote_pricing pkg opts px ag of
             Inl e \<Rightarrow> Inl e
           | Inr bs \<Rightarrow> Inr (b # bs)))"

text \<open>
  The night count of every package leg as the specification words it: the leg's own count
  where the option has a hotel entry for the leg, and 1 where it has none. It is compared
  with \<open>nights_used\<close>, which is what the loop does.
\<close>

definition leg_nights_spec :: "int list \<Rightarrow> hotel list \<Rightarrow> int list" where
  "leg_nights_spec ns hs = map (\<lambda>i. if i < length hs then ns ! i else 1) [0..<length ns]"

section \<open>Seasonal rates (routers/seasonal_rates.py)\<close>

text \<open>
  A date is its day number (\<open>date.toordinal()\<close>); the handlers only compare dates. The
  database session is the two tables the handlers query, each a list of rows in table order;
  \<open>query.filter(...).first()\<close> is \<open>find\<close>, the first row that passes the filter. The
  server-side timestamps \<open>created_at\<close> and \<open>updated_at\<close> are left out. The columns
  \<open>fixed_price\<close>, \<open>min_stay\<close> and \<open>is_active\<close> of a row are nullable and hold an optional
  value; the other columns are declared \<open>nullable=False\<close>. A filter
  \<open>SeasonalRate.is_active == True\<close> passes the rows whose flag is \<open>Some True\<close>. The
  request of a creation is a value of \<open>SeasonalRateBase\<close>, whose schema always gives
  \<open>min_stay\<close> and \<open>is_active\<close> a value.
\<close>

datatype SeasonType = LOW | MEDIUM | HIGH | PEAK

type_synonym date = int

record seasonal_rate_base =
  package_id :: string
  season_name :: string
  season_type :: SeasonType
  start_date :: date
  end_date :: date
  price_multiplier :: rat
  fixed_price :: "rat option"
  min_stay :: "int option"
  is_active :: "bool option"

record seasonal_rate = seasonal_rate_base +
  rate_id :: string

text \<open>
  Every field of \<open>SeasonalRateUpdate\<close> is \<open>Optional\<close> with default \<open>None\<close>, and the
  handler reads the request with \<open>dict(exclude_unset=True)\<close>. A field is therefore in one
  of three states: left out of the request and so absent from \<open>update_data\<close>, sent as an
  explicit \<open>null\<close> and so present with the value \<open>None\<close>, or sent with a value.
\<close>

datatype 'a update_field = Unset | Null | Value 'a

record seasonal_rate_update =
  upd_season_name :: "string update_field"
  upd_season_type :: "SeasonType update_field"
  upd_start_date :: "date update_field"
  upd_end_date :: "date update_field"
  upd_price_multiplier :: "rat update_field"
  upd_fixed_price :: "rat update_field"
  upd_min_stay :: "int update_field"
  upd_is_active :: "bool update_field"

record database =
  packages :: "package list"
  seasonal_rates :: "seasonal_rate list"

text \<open>The filter of the overlap query of \<open>create_seasonal_rate\<close>, on one stored row.\<close>

definition overlapping :: "seasonal_rate_base \<Rightarrow> seasonal_rate \<Rightarrow> bool" where
  "overlapping req r \<longleftrightarrow>
     package_id r = package_id req \<and> is_active r = Some True
     \<and> start_date r \<le> end_date req \<and> end_date r \<ge> start_date req"

text \<open>
  \<open>new_id\<close> stands for \<open>str(uuid.uuid4())\<close>. An exception leaves the session as it was:
  every \<open>raise\<close> comes before \<open>db.add\<close>, so only a successful call returns a database.
\<close>

definition create_seasonal_rate ::
  "database \<Rightarrow> string \<Rightarrow> seasonal_rate_base \<Rightarrow> error + (database \<times> seasonal_rate)" where
  "create_seasonal_rate db new_id req =
     (case find (\<lambda>p. pkg_id p = package_id req) (packages db) of
        None \<Rightarrow> Inl (HTTPException 404 ''Package not found'')
      | Some pkg \<Rightarrow>
          if start_date req \<ge> end_date req
          then Inl (HTTPException 400 ''Start date must be before end date'')
          else
            (case find (overlapping req) (seasonal_rates db) of
               Some r \<Rightarrow>
                 Inl (HTTPException 400
                        (''Seasonal rate overlaps with existing rate: '' @ season_name r))
             | None \<Rightarrow>
                 (let db_seasonal_rate =
                        \<lparr>package_id = package_id req, season_name = season_name req,
                         season_type = season_type req, start_date = start_date req,
                         end_date = end_date req, price_multiplier = price_multiplier req,
                         fixed_price = fixed_price req, min_stay = min_stay req,
                         is_active = is_active req, rate_id = new_id\<rparr>
                  in Inr (db\<lparr>seasonal_rates := seasonal_rates db @ [db_seasonal_rate]\<rparr>,
                          db_seasonal_rate))))"

text \<open>
  \<open>update_data.get(field, current)\<close> for one of the two dates: the current value of the
  row when the field is absent, \<open>None\<close> when it was sent as \<open>null\<close>.
\<close>

definition update_data_get :: "'a update_field \<Rightarrow> 'a \<Rightarrow> 'a option" where
  "update_data_get f current =
     (case f of Unset \<Rightarrow> Some current | Null \<Rightarrow> None | Value v \<Rightarrow> Some v)"

text \<open>
  \<open>setattr\<close> on a column: an absent field leaves the column, a field in \<open>update_data\<close>
  overwrites it, with \<open>None\<close> when it was sent as \<open>null\<close>. A column declared
  \<open>nullable=False\<close> cannot store \<open>None\<close>; \<open>not_null_violated\<close> says that the request
  puts one there, and \<open>set_column\<close> is used only when it does not.
\<close>

definition set_column :: "'a update_field \<Rightarrow> 'a \<Rightarrow> 'a" where
  "set_column f current = (case f of Value v \<Rightarrow> v | _ \<Rightarrow> current)"

definition set_nullable_column :: "'a update_field \<Rightarrow> 'a option \<Rightarrow> 'a option" where
  "set_nullable_column f current =
     (case f of Unset \<Rightarrow> current | Null \<Rightarrow> None | Value v \<Rightarrow> Some v)"

definition not_null_violated :: "seasonal_rate_update \<Rightarrow> bool" where
  "not_null_violated u \<longleftrightarrow>
     upd_season_name u = Null \<or> upd_season_type u = Null
     \<or> upd_start_date u = Null \<or> upd_end_date u = Null
     \<or> upd_price_multiplier u = Null"

text \<open>The loop \<open>for field, value in update_data.items(): setattr(...)\<close>.\<close>

definition apply_update :: "seasonal_rate_update \<Rightarrow> seasonal_rate \<Rightarrow> seasonal_rate" where
  "apply_update u r =
     r\<lparr>season_name := set_column (upd_season_name u) (season_name r),
       season_type := set_column (upd_season_type u) (season_type r),
       start_date := set_column (upd_start_date u) (start_date r),
       end_date := set_column (upd_end_date u) (end_date r),
       price_multiplier := set_column (upd_price_multiplier u) (price_multiplier r),
       fixed_price := set_nullable_column (upd_fixed_price u) (fixed_price r),
       min_stay := set_nullable_column (upd_min_stay u) (min_stay r),
       is_active := set_nullable_column (upd_is_active u) (is_active r)\<rparr>"

text \<open>
  The row that the handler changed is the one the query returned, the first with the
  identifier; \<open>db.commit()\<close> writes it back in its place.
\<close>

fun write_back :: "seasonal_rate \<Rightarrow> seasonal_rate list \<Rightarrow> seasonal_rate list" where
  "write_back r' [] = []"
| "write_back r' (r # rs) =
     (if rate_id r = rate_id r' then r' # rs else r # write_back r' rs)"

text \<open>
  The comparison \<open>start_date >= end_date\<close> raises \<open>TypeError\<close> when one of the two is
  \<open>None\<close>. After the \<open>setattr\<close> loop, \<open>db.commit()\<close> raises \<open>IntegrityError\<close> when a
  column declared \<open>nullable=False\<close> was set to \<open>None\<close>, and then nothing is stored. What
  is returned is the row; the check of a response against its schema comes after the
  handler and is not part of it.
\<close>

definition update_seasonal_rate ::
  "database \<Rightarrow> string \<Rightarrow> seasonal_rate_update \<Rightarrow> error + (database \<times> seasonal_rate)" where
  "update_seasonal_rate db seasonal_rate_id u =
     (case find (\<lambda>r. rate_id r = seasonal_rate_id) (seasonal_rates db) of
        None \<Rightarrow> Inl (HTTPException 404 ''Seasonal rate not found'')
      | Some r \<Rightarrow>
          (case update_data_get (upd_start_date u) (start_date r) of
             None \<Rightarrow> Inl TypeError
           | Some start_d \<Rightarrow>
          (case update_data_get (upd_end_date u) (end_date r) of
             None \<Rightarrow> Inl TypeError
           | Some end_d \<Rightarrow>
               if start_d \<ge> end_d
               then Inl (HTTPException 400 ''Start date must be before end date'')
               else if not_null_violated u
               then Inl IntegrityError
               else
                 (let r' = apply_update u r
                  in Inr (db\<lparr>seasonal_rates := write_back r' (seasonal_rates db)\<rparr>, r')))))"

record rate_info =
  ri_id :: string
  ri_season_name :: string
  ri_season_type :: SeasonType
  ri_price_multiplier :: rat
  ri_fixed_price :: "rat option"

record price_response =
  resp_package_id :: string
  resp_travel_date :: date
  resp_base_price :: rat
  resp_seasonal_rate :: "rate_info option"
  resp_final_price :: rat

text \<open>The filter of the query of \<open>calculate_seasonal_price\<close>, on one stored row.\<close>

definition applicable :: "string \<Rightarrow> date \<Rightarrow> seasonal_rate \<Rightarrow> bool" where
  "applicable pid travel_date r \<longleftrightarrow>
     package_id r = pid \<and> is_active r = Some True
     \<and> start_date r \<le> travel_date \<and> end_date r \<ge> travel_date"

text \<open>
  \<open>if seasonal_rate.fixed_price:\<close> tests the truth value of an optional float: \<open>None\<close>
  and \<open>0.0\<close> are both false.
\<close>

definition truthy :: "rat option \<Rightarrow> bool" where
  "truthy x = (case x of None \<Rightarrow> False | Some v \<Rightarrow> v \<noteq> 0)"

definition calculate_seasonal_price :: "database \<Rightarrow> string \<Rightarrow> date \<Rightarrow> error + price_response" where
  "calculate_seasonal_price db pid travel_date =
     (case find (\<lambda>p. pkg_id p = pid) (packages db) of
        None \<Rightarrow> Inl (HTTPException 404 ''Package not found'')
      | Some pkg \<Rightarrow>
          (case find (applicable pid travel_date) (seasonal_rates db) of
             Some r \<Rightarrow>
               (let final_price =
                      (if truthy (fixed_price r) then the (fixed_price r)
                       else base_price pkg * price_multiplier r)
                in Inr \<lparr>resp_package_id = pid, resp_travel_date = travel_date,
                        resp_base_price = base_price pkg,
                        resp_seasonal_rate =
                          Some \<lparr>ri_id = rate_id r, ri_season_name = season_name r,
                                ri_season_type = season_type r,
                                ri_price_multiplier = price_multiplier r,
                                ri_fixed_price = fixed_price r\<rparr>,
                        resp_final_price = final_price\<rparr>)
           | None \<Rightarrow>
               Inr \<lparr>resp_package_id = pid, resp_travel_date = travel_date,
                    resp_base_price = base_price pkg,
                    resp_seasonal_rate = None,
                    resp_final_price = base_price pkg\<rparr>))"

text \<open>
  A date is covered by a rate when it lies in the closed range of the rate. Two rows clash
  when they are active rates of one package that cover a common date.
\<close>

definition covers :: "seasonal_rate \<Rightarrow> date \<Rightarrow> bool" where
  "covers r d \<longleftrightarrow> start_date r \<le> d \<and> d \<le> end_date r"

definition clash :: "seasonal_rate \<Rightarrow> seasonal_rate \<Rightarrow> bool" where
  "clash r r' \<longleftrightarrow>
     package_id r = package_id r' \<and> is_active r = Some True \<and> is_active r' = Some True
     \<and> max (start_date r) (start_date r') \<le> min (end_date r) (end_date r')"

fun clash_free :: "seasonal_rate list \<Rightarrow> bool" where
  "clash_free [] = True"
| "clash_free (r # rs) = (list_all (\<lambda>r'. \<not> clash r r') rs \<and> clash_free rs)"

section \<open>Example data\<close>

text \<open>
  One package of 1000 a head; a peak rate over the days 10 to 20 at one and a half times
  the price; a request for a high rate over the days 30 to 40, the row it creates, and
  that row once its start is moved to day 15; a rate whose fixed price is 0.
\<close>

definition pkg1 :: package where
  "pkg1 = \<lparr>pkg_id = ''P1'', duration = 3, nights = [1, 2], base_price = 1000\<rparr>"

definition peak_rate :: seasonal_rate where
  "peak_rate = \<lparr>package_id = ''P1'', season_name = ''Peak'', season_type = PEAK,
                 start_date = 10, end_date = 20, price_multiplier = 3 / 2,
                 fixed_price = None, min_stay = Some 1, is_active = Some True, rate_id = ''A''\<rparr>"

definition high_request :: seasonal_rate_base where
  "high_request = \<lparr>package_id = ''P1'', season_name = ''High'', season_type = HIGH,
                    start_date = 30, end_date = 40, price_multiplier = 6 / 5,
                    fixed_price = None, min_stay = Some 1, is_active = Some True\<rparr>"

definition high_rate :: seasonal_rate where
  "high_rate = \<lparr>package_id = ''P1'', season_name = ''High'', season_type = HIGH,
                 start_date = 30, end_date = 40, price_multiplier = 6 / 5,
                 fixed_price = None, min_stay = Some 1, is_active = Some True, rate_id = ''B''\<rparr>"




definition null_start :: seasonal_rate_update where
  "null_start = \<lparr>upd_season_name = Unset, upd_season_type = Unset,
                  upd_start_date = Null, upd_end_date = Unset,
                  upd_price_multiplier = Unset, upd_fixed_price = Unset,
                  upd_min_stay = Unset, upd_is_active = Unset\<rparr>"

text \<open>
  The database with no row at all, with the peak rate alone, after the high rate is
  created, and after its start is moved.
\<close>

definition empty_db :: database where
  "empty_db = \<lparr>packages = [], seasonal_rates = []\<rparr>"

definition db1 :: database where
  "db1 = \<lparr>packages = [pkg1], seasonal_rates = [peak_rate]\<rparr>"

definition db2 :: database where
  "db2 = \<lparr>packages = [pkg1], seasonal_rates = [peak_rate, high_rate]\<rparr>"


definition free_rate :: seasonal_rate where
  "free_rate = \<lparr>package_id = ''P1'', season_name = ''Promo'', season_type = LOW,
                 start_date = 10, end_date = 20, price_multiplier = 3 / 2,
                 fixed_price = Some 0, min_stay = Some 1, is_active = Some True, rate_id = ''F''\<rparr>"

section \<open>Room allocation and vehicle selection\<close>

lemma ceiling_half: "\<lceil>(of_int n :: rat) / 2\<rceil> = (n + 1) div 2"
proof -
  have "\<lceil>(of_int n :: rat) / of_int 2\<rceil> = - (- n div 2)"
    by (rule ceiling_divide_eq_div)
  also have "\<dots> = (n + 1) div 2"
    by presburger
  finally show ?thesis
    by simp
qed

text \<open>
  C5. \<open>calculate_rooms a c1 c2\<close> gives \<open>max 1 (ceil ((a + c1) / 2))\<close> rooms, whatever
  the number \<open>c2\<close> of children without a bed, and one room for the empty party. The
  equation holds for all integers, the non-negative ones among them.
\<close>

theorem calculate_rooms_ceiling:
  "rooms (calculate_rooms a c1 c2) = max 1 \<lceil>(of_int (a + c1) :: rat) / 2\<rceil>
   \<and> rooms (calculate_rooms a c1 c2) = rooms (calculate_rooms a c1 c2')
   \<and> rooms (calculate_rooms 0 0 0) = 1"
  using ceiling_half [of "a + c1"]
  by (simp add: calculate_rooms_def Let_def del: of_int_add)

text \<open>
  C6. The tiers are scanned in ascending order of capacity and the first one that can carry
  the party is returned: 6 seats and fewer give the Avanza, 7 and 8 the Innova, 9 to 15 the
  ELF, and every larger party the Bus, also beyond its 25 seats. A result is returned for
  every integer. Whenever some tier fits, the returned one fits and no tier that fits is
  smaller.
\<close>

theorem select_vehicle_tiers:
  "map capacity VEHICLE_PRICING = [6, 8, 15, 25]
   \<and> (total_pax \<le> 6 \<longrightarrow> vehicle_type (select_vehicle total_pax) = ''Avanza'')
   \<and> (6 < total_pax \<and> total_pax \<le> 8 \<longrightarrow> vehicle_type (select_vehicle total_pax) = ''Innova'')
   \<and> (8 < total_pax \<and> total_pax \<le> 15 \<longrightarrow> vehicle_type (select_vehicle total_pax) = ''ELF'')
   \<and> (15 < total_pax \<longrightarrow> vehicle_type (select_vehicle total_pax) = ''Bus'')
   \<and> (total_pax \<le> 25 \<longrightarrow>
        select_vehicle total_pax \<in> set VEHICLE_PRICING
        \<and> total_pax \<le> capacity (select_vehicle total_pax)
        \<and> (\<forall>v \<in> set VEHICLE_PRICING.
              total_pax \<le> capacity v \<longrightarrow> capacity (select_vehicle total_pax) \<le> capacity v))"
  by (simp add: select_vehicle_def VEHICLE_PRICING_def)

theorem select_vehicle_tiers_witness:
  "vehicle_type (select_vehicle 2) = ''Avanza''
   \<and> vehicle_type (select_vehicle 7) = ''Innova''
   \<and> vehicle_type (select_vehicle 12) = ''ELF''
   \<and> vehicle_type (select_vehicle 30) = ''Bus''
   \<and> select_vehicle 12 \<in> set VEHICLE_PRICING
   \<and> 12 \<le> capacity (select_vehicle 12)"
  using select_vehicle_tiers [of 2] select_vehicle_tiers [of 7]
    select_vehicle_tiers [of 12] select_vehicle_tiers [of 30]
  by simp

section \<open>The end-to-end scenario\<close>

text \<open>
  C1. The package costs 100 a head, lasts 3 days and has legs of 1 and 2 nights; two adults
  travel; the one option has hotels at 50 and 40 a night, no add-ons and a markup of 10
  percent; the agent is Bronze. The pax dictionary of the scenario names its child counts
  \<open>children_with_bed\<close> and \<open>children_without_bed\<close>; the code reads \<open>child_with_bed\<close> and
  \<open>child_without_bed\<close> and so takes both as 0, which is what the scenario gives them.
  One breakdown is returned: 200, 130, 105, 0, discount 10, markup 42.5, final 467.5.
\<close>

theorem scenario_breakdown:
  "calculate_quote_pricing
     \<lparr>pkg_id = ''P1'', duration = 3, nights = [1, 2], base_price = 100\<rparr>
     [\<lparr>hotels = [\<lparr>price_per_night = 50\<rparr>, \<lparr>price_per_night = 40\<rparr>],
       add_ons = Some [], markup = Some 10, markup_type = Some ''percentage''\<rparr>]
     [''adults'' \<mapsto> 2, ''children_with_bed'' \<mapsto> 0, ''children_without_bed'' \<mapsto> 0,
      ''total'' \<mapsto> 2]
     \<lparr>tier = Some BRONZE\<rparr>
   = Inr [\<lparr>pb_base_price = 200, pb_hotel_cost = 130, pb_vehicle_cost = 105,
           pb_addon_cost = 0, pb_tier_discount = 10, pb_markup = 85 / 2,
           pb_final_price = 935 / 2\<rparr>]"
  by (simp add: price_option_def calculate_rooms_def dict_get_def select_vehicle_def
        VEHICLE_PRICING_def nights_at_def Let_def)

section \<open>Hotel cost\<close>

text \<open>
  The loop adds one term for each hotel entry of the option, and the night count of a term
  is that of the package leg with the entry's index, or 1 when the package has no such leg.
\<close>

lemma hotel_loop_sum:
  "hotel_loop ns rms i hs acc =
     acc + (\<Sum>k<length hs. price_per_night (hs ! k) * of_int (nights_at ns (i + k)) * of_int rms)"
  by (induction hs arbitrary: i acc) (simp_all add: sum.lessThan_Suc_shift add.assoc del: sum.lessThan_Suc)

lemma nights_used_map:
  "nights_used ns i hs = map (\<lambda>k. nights_at ns (i + k)) [0..<length hs]"
  by (induction hs arbitrary: i) (simp_all add: map_upt_Suc del: upt_Suc)

lemma nights_used_take:
  assumes "length hs \<le> length ns"
  shows "nights_used ns 0 hs = take (length hs) ns"
proof (rule nth_equalityI)
  show "length (nights_used ns 0 hs) = length (take (length hs) ns)"
    using assms by (simp add: nights_used_map)
next
  fix k
  assume "k < length (nights_used ns 0 hs)"
  then have "k < length hs"
    by (simp add: nights_used_map)
  with assms show "nights_used ns 0 hs ! k = take (length hs) ns ! k"
    by (simp add: nights_used_map nights_at_def)
qed

text \<open>
  With \<open>total\<close> and \<open>adults\<close> in the pax dictionary no key is missing, and a breakdown
  is returned for every option, in order.
\<close>

lemma price_option_returns:
  assumes "px ''total'' = Some t" and "px ''adults'' = Some a"
  shows "\<exists>b. price_option pkg px ag opt = Inr b
     \<and> pb_hotel_cost b =
         hotel_loop (nights pkg)
           (rooms (calculate_rooms a (dict_get px ''child_with_bed'' 0)
                     (dict_get px ''child_without_bed'' 0)))
           0 (hotels opt) 0
     \<and> pb_final_price b =
         pb_base_price b + pb_hotel_cost b + pb_vehicle_cost b + pb_addon_cost b
           - pb_tier_discount b + pb_markup b"
  using assms by (simp add: price_option_def Let_def)

lemma calculate_quote_pricing_returns:
  assumes "px ''total'' = Some t" and "px ''adults'' = Some a"
  shows "\<exists>bs. calculate_quote_pricing pkg opts px ag = Inr bs
     \<and> length bs = length opts
     \<and> (\<forall>i<length opts. price_option pkg px ag (opts ! i) = Inr (bs ! i))"
proof (induction opts)
  case Nil
  show ?case by simp
next
  case (Cons opt opts)
  then obtain bs where bs: "calculate_quote_pricing pkg opts px ag = Inr bs"
    "length bs = length opts"
    "\<forall>i<length opts. price_option pkg px ag (opts ! i) = Inr (bs ! i)"
    by blast
  from price_option_returns [OF assms] obtain b where b: "price_option pkg px ag opt = Inr b"
    by blast
  have "\<forall>i<length (opt # opts). price_option pkg px ag ((opt # opts) ! i) = Inr ((b # bs) ! i)"
    using b bs(3) by (simp add: nth_Cons split: nat.split)
  with b bs show ?case by simp
qed

text \<open>
  C10. An option with more hotel entries than the package has legs is priced without
  error, and every entry is charged: the entries beyond the last leg at 1 night each.
\<close>

theorem hotel_cost_extra_hotels:
  assumes "px ''total'' = Some t" and "px ''adults'' = Some a"
    and "i < length opts"
    and "length (nights pkg) < length (hotels (opts ! i))"
  shows "\<exists>bs. calculate_quote_pricing pkg opts px ag = Inr bs
     \<and> pb_hotel_cost (bs ! i) =
         (\<Sum>k<length (hotels (opts ! i)).
            price_per_night (hotels (opts ! i) ! k)
            * of_int (if k < length (nights pkg) then nights pkg ! k else 1)
            * of_int (rooms (calculate_rooms a (dict_get px ''child_with_bed'' 0)
                               (dict_get px ''child_without_bed'' 0))))"
proof -
  from calculate_quote_pricing_returns [OF assms(1,2)]
  obtain bs where bs: "calculate_quote_pricing pkg opts px ag = Inr bs"
    and nth: "\<forall>i<length opts. price_option pkg px ag (opts ! i) = Inr (bs ! i)"
    by blast
  from nth assms(3) have "price_option pkg px ag (opts ! i) = Inr (bs ! i)"
    by simp
  with price_option_returns [OF assms(1,2), of pkg ag "opts ! i"]
  have "pb_hotel_cost (bs ! i) =
      hotel_loop (nights pkg)
        (rooms (calculate_rooms a (dict_get px ''child_with_bed'' 0)
                  (dict_get px ''child_without_bed'' 0)))
        0 (hotels (opts ! i)) 0"
    by auto
  with bs show ?thesis
    by (simp add: hotel_loop_sum nights_at_def)
qed

theorem hotel_cost_extra_hotels_witness:
  "\<exists>bs. calculate_quote_pricing
          \<lparr>pkg_id = ''P1'', duration = 2, nights = [3], base_price = 100\<rparr>
          [\<lparr>hotels = [\<lparr>price_per_night = 50\<rparr>, \<lparr>price_per_night = 40\<rparr>],
            add_ons = None, markup = None, markup_type = None\<rparr>]
          [''adults'' \<mapsto> 4, ''total'' \<mapsto> 4] \<lparr>tier = None\<rparr> = Inr bs
     \<and> pb_hotel_cost (bs ! 0) = 380"
  using hotel_cost_extra_hotels
    [of "[''adults'' \<mapsto> 4, ''total'' \<mapsto> 4]" 4 4 0
        "[\<lparr>hotels = [\<lparr>price_per_night = 50\<rparr>, \<lparr>price_per_night = 40\<rparr>],
           add_ons = None, markup = None, markup_type = None\<rparr>]"
        "\<lparr>pkg_id = ''P1'', duration = 2, nights = [3], base_price = 100\<rparr>"
        "\<lparr>tier = None\<rparr>"]
  by (simp add: calculate_rooms_def dict_get_def)

text \<open>
  C2 as stated fails. The package has legs of 3 and 2 nights and the option one hotel at 50
  a night. The loop runs once, with 3 nights, and the hotel cost is 150 for one room: the
  second leg has no hotel entry, is given no night count and adds no term. In the wording
  of the specification that leg would count with 1 night.
\<close>

theorem hotel_cost_per_leg_counterexample:
  "nights_used [3, 2] 0 [\<lparr>price_per_night = 50\<rparr>]
     \<noteq> leg_nights_spec [3, 2] [\<lparr>price_per_night = 50\<rparr>]
   \<and> nights_used [3, 2] 0 [\<lparr>price_per_night = 50\<rparr>] = [3]
   \<and> leg_nights_spec [3, 2] [\<lparr>price_per_night = 50\<rparr>] = [3, 1]
   \<and> calculate_quote_pricing
        \<lparr>pkg_id = ''P1'', duration = 5, nights = [3, 2], base_price = 100\<rparr>
        [\<lparr>hotels = [\<lparr>price_per_night = 50\<rparr>],
          add_ons = None, markup = None, markup_type = None\<rparr>]
        [''adults'' \<mapsto> 2, ''total'' \<mapsto> 2] \<lparr>tier = None\<rparr>
      = Inr [\<lparr>pb_base_price = 200, pb_hotel_cost = 150, pb_vehicle_cost = 175,
              pb_addon_cost = 0, pb_tier_discount = 0, pb_markup = 0,
              pb_final_price = 525\<rparr>]"
  by (simp add: leg_nights_spec_def price_option_def calculate_rooms_def dict_get_def
        select_vehicle_def VEHICLE_PRICING_def nights_at_def Let_def upt_rec)

text \<open>
  C2, amended. For an option with fewer hotel entries than the package has legs, the hotel
  cost is the sum over the hotel entries (not over the package legs) of price per night
  times the nights of the leg with the same index times rooms. Every night count used is
  the package's own: none is defaulted to 1, and a leg without a hotel entry adds nothing.
\<close>

theorem hotel_cost_fewer_hotels:
  assumes "px ''total'' = Some t" and "px ''adults'' = Some a"
    and "i < length opts"
    and "length (hotels (opts ! i)) < length (nights pkg)"
  shows "\<exists>bs. calculate_quote_pricing pkg opts px ag = Inr bs
     \<and> pb_hotel_cost (bs ! i) =
         (\<Sum>k<length (hotels (opts ! i)).
            price_per_night (hotels (opts ! i) ! k)
            * of_int (nights pkg ! k)
            * of_int (rooms (calculate_rooms a (dict_get px ''child_with_bed'' 0)
                               (dict_get px ''child_without_bed'' 0))))
     \<and> nights_used (nights pkg) 0 (hotels (opts ! i))
         = take (length (hotels (opts ! i))) (nights pkg)"
proof -
  from calculate_quote_pricing_returns [OF assms(1,2)]
  obtain bs where bs: "calculate_quote_pricing pkg opts px ag = Inr bs"
    and nth: "\<forall>i<length opts. price_option pkg px ag (opts ! i) = Inr (bs ! i)"
    by blast
  from nth assms(3) have "price_option pkg px ag (opts ! i) = Inr (bs ! i)"
    by simp
  with price_option_returns [OF assms(1,2), of pkg ag "opts ! i"]
  have "pb_hotel_cost (bs ! i) =
      hotel_loop (nights pkg)
        (rooms (calculate_rooms a (dict_get px ''child_with_bed'' 0)
                  (dict_get px ''child_without_bed'' 0)))
        0 (hotels (opts ! i)) 0"
    by auto
  with assms(4) have cost: "pb_hotel_cost (bs ! i) =
         (\<Sum>k<length (hotels (opts ! i)).
            price_per_night (hotels (opts ! i) ! k)
            * of_int (nights pkg ! k)
            * of_int (rooms (calculate_rooms a (dict_get px ''child_with_bed'' 0)
                               (dict_get px ''child_without_bed'' 0))))"
    by (simp add: hotel_loop_sum nights_at_def)
  have "nights_used (nights pkg) 0 (hotels (opts ! i))
         = take (length (hotels (opts ! i))) (nights pkg)"
    using assms(4) by (simp add: nights_used_take)
  with bs cost show ?thesis
    by blast
qed

theorem hotel_cost_fewer_hotels_witness:
  "\<exists>bs. calculate_quote_pricing
          \<lparr>pkg_id = ''P1'', duration = 5, nights = [3, 2], base_price = 100\<rparr>
          [\<lparr>hotels = [\<lparr>price_per_night = 50\<rparr>],
            add_ons = None, markup = None, markup_type = None\<rparr>]
          [''adults'' \<mapsto> 2, ''total'' \<mapsto> 2] \<lparr>tier = None\<rparr> = Inr bs
     \<and> pb_hotel_cost (bs ! 0) = 150
     \<and> nights_used [3, 2] 0 [\<lparr>price_per_night = 50\<rparr>] = [3]"
  using hotel_cost_fewer_hotels
    [of "[''adults'' \<mapsto> 2, ''total'' \<mapsto> 2]" 2 2 0
        "[\<lparr>hotels = [\<lparr>price_per_night = 50\<rparr>],
           add_ons = None, markup = None, markup_type = None\<rparr>]"
        "\<lparr>pkg_id = ''P1'', duration = 5, nights = [3, 2], base_price = 100\<rparr>"
        "\<lparr>tier = None\<rparr>"]
  by (simp add: calculate_rooms_def dict_get_def)

section \<open>Final price\<close>

text \<open>
  C4 as stated fails. Ten adults on a package of 1 a head with one hotel night at 5 and a
  Platinum agent: the subtotal is 10 + 25 + 65 = 100, the discount 200, and the final
  price returned is -100.
\<close>

theorem final_price_negative_counterexample:
  "(case calculate_quote_pricing
           \<lparr>pkg_id = ''P1'', duration = 1, nights = [1], base_price = 1\<rparr>
           [\<lparr>hotels = [\<lparr>price_per_night = 5\<rparr>],
             add_ons = Some [], markup = Some 0, markup_type = Some ''flat''\<rparr>]
           [''adults'' \<mapsto> 10, ''child_with_bed'' \<mapsto> 0, ''child_without_bed'' \<mapsto> 0,
            ''total'' \<mapsto> 10]
           \<lparr>tier = Some PLATINUM\<rparr> of
      Inr bs \<Rightarrow> map pb_final_price bs
    | Inl e \<Rightarrow> [])
   = [- 100]"
  by (simp add: price_option_def calculate_rooms_def dict_get_def select_vehicle_def
        VEHICLE_PRICING_def nights_at_def Let_def)

text \<open>
  C4, amended. In every breakdown returned the final price is the subtotal less the tier
  discount plus the markup, as computed: no floor at 0 is applied, so it is negative
  whenever the discount exceeds the subtotal and the markup together.
\<close>

theorem final_price_unfloored:
  assumes "px ''total'' = Some t" and "px ''adults'' = Some a"
  shows "\<exists>bs. calculate_quote_pricing pkg opts px ag = Inr bs
     \<and> (\<forall>b \<in> set bs.
           pb_final_price b =
             pb_base_price b + pb_hotel_cost b + pb_vehicle_cost b + pb_addon_cost b
               - pb_tier_discount b + pb_markup b)"
proof -
  from calculate_quote_pricing_returns [OF assms]
  obtain bs where bs: "calculate_quote_pricing pkg opts px ag = Inr bs"
    and len: "length bs = length opts"
    and nth: "\<forall>i<length opts. price_option pkg px ag (opts ! i) = Inr (bs ! i)"
    by blast
  have "pb_final_price b =
          pb_base_price b + pb_hotel_cost b + pb_vehicle_cost b + pb_addon_cost b
            - pb_tier_discount b + pb_markup b" if "b \<in> set bs" for b
  proof -
    from that len obtain i where "i < length opts" "b = bs ! i"
      by (metis in_set_conv_nth)
    with nth have "price_option pkg px ag (opts ! i) = Inr b"
      by simp
    with price_option_returns [OF assms, of pkg ag "opts ! i"] show ?thesis
      by auto
  qed
  with bs show ?thesis
    by blast
qed

theorem final_price_unfloored_witness:
  "calculate_quote_pricing
     \<lparr>pkg_id = ''P1'', duration = 1, nights = [1], base_price = 1\<rparr>
     [\<lparr>hotels = [\<lparr>price_per_night = 5\<rparr>],
       add_ons = Some [], markup = Some 0, markup_type = Some ''flat''\<rparr>]
     [''adults'' \<mapsto> 10, ''total'' \<mapsto> 10]
     \<lparr>tier = Some PLATINUM\<rparr>
   = Inr [\<lparr>pb_base_price = 10, pb_hotel_cost = 25, pb_vehicle_cost = 65,
           pb_addon_cost = 0, pb_tier_discount = 200, pb_markup = 0,
           pb_final_price = - 100\<rparr>]
   \<and> (- 100 :: rat) = 10 + 25 + 65 + 0 - 200 + 0"
proof -
  have run: "calculate_quote_pricing
     \<lparr>pkg_id = ''P1'', duration = 1, nights = [1], base_price = 1\<rparr>
     [\<lparr>hotels = [\<lparr>price_per_night = 5\<rparr>],
       add_ons = Some [], markup = Some 0, markup_type = Some ''flat''\<rparr>]
     [''adults'' \<mapsto> 10, ''total'' \<mapsto> 10]
     \<lparr>tier = Some PLATINUM\<rparr>
   = Inr [\<lparr>pb_base_price = 10, pb_hotel_cost = 25, pb_vehicle_cost = 65,
           pb_addon_cost = 0, pb_tier_discount = 200, pb_markup = 0,
           pb_final_price = - 100\<rparr>]"
    by (simp add: price_option_def calculate_rooms_def dict_get_def select_vehicle_def
          VEHICLE_PRICING_def nights_at_def Let_def)
  have "[''adults'' \<mapsto> 10, ''total'' \<mapsto> 10] ''total'' = Some (10::int)"
    and "[''adults'' \<mapsto> 10, ''total'' \<mapsto> 10] ''adults'' = Some (10::int)"
    by simp_all
  from final_price_unfloored [OF this,
      of "\<lparr>pkg_id = ''P1'', duration = 1, nights = [1], base_price = 1\<rparr>"
         "[\<lparr>hotels = [\<lparr>price_per_night = 5\<rparr>],
            add_ons = Some [], markup = Some 0, markup_type = Some ''flat''\<rparr>]"
         "\<lparr>tier = Some PLATINUM\<rparr>"]
  have "(- 100 :: rat) = 10 + 25 + 65 + 0 - 200 + 0"
    unfolding run by simp
  with run show ?thesis
    by blast
qed

section \<open>Creating and updating seasonal rates\<close>

text \<open>
  Two rows clash exactly when they are active rates of one package and some date lies in
  both ranges; \<open>clash_free\<close> says that no two rows of the table clash.
\<close>

lemma clash_covers:
  "clash r r' \<longleftrightarrow>
     package_id r = package_id r' \<and> is_active r = Some True \<and> is_active r' = Some True
     \<and> (\<exists>d. covers r d \<and> covers r' d)"
proof -
  have "max (start_date r) (start_date r') \<le> min (end_date r) (end_date r')
        \<longleftrightarrow> (\<exists>d. covers r d \<and> covers r' d)"
  proof
    assume "max (start_date r) (start_date r') \<le> min (end_date r) (end_date r')"
    then have "covers r (max (start_date r) (start_date r'))
        \<and> covers r' (max (start_date r) (start_date r'))"
      by (simp add: covers_def)
    then show "\<exists>d. covers r d \<and> covers r' d" ..
  next
    assume "\<exists>d. covers r d \<and> covers r' d"
    then show "max (start_date r) (start_date r') \<le> min (end_date r) (end_date r')"
      by (auto simp add: covers_def)
  qed
  then show ?thesis
    by (simp add: clash_def)
qed

lemma clash_free_append:
  "clash_free (rs @ [r']) \<longleftrightarrow> clash_free rs \<and> (\<forall>r \<in> set rs. \<not> clash r r')"
  by (induction rs) (auto simp add: list_all_iff)

lemma find_None_overlapping:
  assumes "find (overlapping req) rs = None"
    and "r \<in> set rs" and "package_id r = package_id req" and "is_active r = Some True"
  shows "\<not> (start_date r \<le> end_date req \<and> start_date req \<le> end_date r)"
  using assms by (auto simp add: find_None_iff overlapping_def)

lemma create_high_rate:
  "create_seasonal_rate db1 ''B'' high_request = Inr (db2, high_rate)"
  by (simp add: create_seasonal_rate_def overlapping_def db1_def db2_def pkg1_def
        peak_rate_def high_request_def high_rate_def Let_def)

text \<open>
  C8 as stated fails. A request whose start date is not before its end date, for a package
  that does not exist, is refused with 404 and not with 400: the package is looked up
  before the dates are compared.
\<close>

theorem create_seasonal_rate_404_counterexample:
  "create_seasonal_rate empty_db ''B'' (high_request\<lparr>start_date := 40, end_date := 30\<rparr>)
   = Inl (HTTPException 404 ''Package not found'')"
  by (simp add: create_seasonal_rate_def empty_db_def)

text \<open>
  C8, amended. A request for a package that does not exist fails with 404. For a package
  that exists, the request fails with 400 whenever its start date is not before its end
  date or some date of its range is covered by a stored active rate of the same package.
  A failure stores nothing. So a rate that is created has its start before its end, is
  appended to the table, shares no date with a stored active rate of its package, and a
  table in which no two active rates of one package covered a common date is still such a
  table with the new rate.
\<close>

theorem create_seasonal_rate_checks:
  "(find (\<lambda>p. pkg_id p = package_id req) (packages db) = None \<longrightarrow>
      create_seasonal_rate db new_id req = Inl (HTTPException 404 ''Package not found''))
   \<and> (find (\<lambda>p. pkg_id p = package_id req) (packages db) \<noteq> None
       \<and> (start_date req \<ge> end_date req
          \<or> (\<exists>r \<in> set (seasonal_rates db).
                package_id r = package_id req \<and> is_active r = Some True
                \<and> (\<exists>d. covers r d \<and> start_date req \<le> d \<and> d \<le> end_date req))) \<longrightarrow>
      (\<exists>detail. create_seasonal_rate db new_id req = Inl (HTTPException 400 detail)))
   \<and> (create_seasonal_rate db new_id req = Inr (db', r') \<longrightarrow>
        start_date r' < end_date r'
        \<and> seasonal_rates db' = seasonal_rates db @ [r']
        \<and> (\<forall>r \<in> set (seasonal_rates db).
              package_id r = package_id r' \<and> is_active r = Some True \<longrightarrow>
                \<not> (\<exists>d. covers r d \<and> covers r' d))
        \<and> (clash_free (seasonal_rates db) \<longrightarrow> clash_free (seasonal_rates db')))"
proof (intro conjI impI)
  assume "find (\<lambda>p. pkg_id p = package_id req) (packages db) = None"
  then show "create_seasonal_rate db new_id req = Inl (HTTPException 404 ''Package not found'')"
    by (simp add: create_seasonal_rate_def)
next
  assume a: "find (\<lambda>p. pkg_id p = package_id req) (packages db) \<noteq> None
       \<and> (start_date req \<ge> end_date req
          \<or> (\<exists>r \<in> set (seasonal_rates db).
                package_id r = package_id req \<and> is_active r = Some True
                \<and> (\<exists>d. covers r d \<and> start_date req \<le> d \<and> d \<le> end_date req)))"
  then obtain pkg where pkg: "find (\<lambda>p. pkg_id p = package_id req) (packages db) = Some pkg"
    by auto
  show "\<exists>detail. create_seasonal_rate db new_id req = Inl (HTTPException 400 detail)"
  proof (cases "start_date req \<ge> end_date req")
    case True
    with pkg show ?thesis
      by (simp add: create_seasonal_rate_def)
  next
    case False
    with a obtain r d where r: "r \<in> set (seasonal_rates db)" "package_id r = package_id req"
      "is_active r = Some True" "covers r d" "start_date req \<le> d" "d \<le> end_date req"
      by auto
    then have "overlapping req r"
      by (auto simp add: overlapping_def covers_def)
    with r(1) have "find (overlapping req) (seasonal_rates db) \<noteq> None"
      by (auto simp add: find_None_iff)
    then obtain r0 where "find (overlapping req) (seasonal_rates db) = Some r0"
      by auto
    with pkg False show ?thesis
      by (simp add: create_seasonal_rate_def)
  qed
next
  assume ok: "create_seasonal_rate db new_id req = Inr (db', r')"
  then have lt: "start_date req < end_date req"
    and none: "find (overlapping req) (seasonal_rates db) = None"
    and r': "r' = \<lparr>package_id = package_id req, season_name = season_name req,
                   season_type = season_type req, start_date = start_date req,
                   end_date = end_date req, price_multiplier = price_multiplier req,
                   fixed_price = fixed_price req, min_stay = min_stay req,
                   is_active = is_active req, rate_id = new_id\<rparr>"
    and db': "db' = db\<lparr>seasonal_rates := seasonal_rates db @ [r']\<rparr>"
    by (auto simp add: create_seasonal_rate_def Let_def split: option.splits if_splits)
  from lt r' show "start_date r' < end_date r'"
    by simp
  from db' show "seasonal_rates db' = seasonal_rates db @ [r']"
    by simp
  have sep: "\<not> (\<exists>d. covers r d \<and> covers r' d)"
    if "r \<in> set (seasonal_rates db)" "package_id r = package_id r'" "is_active r = Some True" for r
  proof -
    from that r' have "package_id r = package_id req"
      by simp
    from find_None_overlapping [OF none that(1) this that(3)] r' show ?thesis
      by (auto simp add: covers_def)
  qed
  then show "\<forall>r \<in> set (seasonal_rates db).
      package_id r = package_id r' \<and> is_active r = Some True \<longrightarrow>
                \<not> (\<exists>d. covers r d \<and> covers r' d)"
    by blast
  show "clash_free (seasonal_rates db')" if "clash_free (seasonal_rates db)"
    using that sep db' by (auto simp add: clash_free_append clash_covers)
qed

theorem create_seasonal_rate_checks_witness:
  "create_seasonal_rate empty_db ''B'' high_request
     = Inl (HTTPException 404 ''Package not found'')
   \<and> (\<exists>detail. create_seasonal_rate db1 ''B'' (high_request\<lparr>start_date := 20\<rparr>)
                  = Inl (HTTPException 400 detail))
   \<and> create_seasonal_rate db1 ''B'' high_request = Inr (db2, high_rate)
   \<and> start_date high_rate < end_date high_rate
   \<and> seasonal_rates db2 = seasonal_rates db1 @ [high_rate]
   \<and> \<not> clash peak_rate high_rate
   \<and> clash_free (seasonal_rates db1) \<and> clash_free (seasonal_rates db2)"
proof -
  have missing: "find (\<lambda>p. pkg_id p = package_id high_request) (packages empty_db) = None"
    by (simp add: empty_db_def)
  have "covers peak_rate 20"
    by (simp add: covers_def peak_rate_def)
  then have "\<exists>d. covers peak_rate d
      \<and> start_date (high_request\<lparr>start_date := 20\<rparr>) \<le> d
      \<and> d \<le> end_date (high_request\<lparr>start_date := 20\<rparr>)"
    by (intro exI [of _ 20]) (simp add: high_request_def)
  then have overlap:
    "find (\<lambda>p. pkg_id p = package_id (high_request\<lparr>start_date := 20\<rparr>)) (packages db1) \<noteq> None
     \<and> (start_date (high_request\<lparr>start_date := 20\<rparr>) \<ge> end_date (high_request\<lparr>start_date := 20\<rparr>)
        \<or> (\<exists>r \<in> set (seasonal_rates db1).
              package_id r = package_id (high_request\<lparr>start_date := 20\<rparr>) \<and> is_active r = Some True
              \<and> (\<exists>d. covers r d \<and> start_date (high_request\<lparr>start_date := 20\<rparr>) \<le> d
                     \<and> d \<le> end_date (high_request\<lparr>start_date := 20\<rparr>))))"
    by (simp add: db1_def pkg1_def high_request_def peak_rate_def)
  have free: "clash_free (seasonal_rates db1)"
    by (simp add: db1_def)
  from create_seasonal_rate_checks [of high_request empty_db "''B''"] missing
  have r1: "create_seasonal_rate empty_db ''B'' high_request
     = Inl (HTTPException 404 ''Package not found'')"
    by blast
  from create_seasonal_rate_checks [of "high_request\<lparr>start_date := 20\<rparr>" db1 "''B''"] overlap
  have r2: "\<exists>detail. create_seasonal_rate db1 ''B'' (high_request\<lparr>start_date := 20\<rparr>)
                  = Inl (HTTPException 400 detail)"
    by blast
  from create_seasonal_rate_checks [of high_request db1 "''B''" db2 high_rate]
    create_high_rate free
  have r3: "start_date high_rate < end_date high_rate
   \<and> seasonal_rates db2 = seasonal_rates db1 @ [high_rate]
   \<and> (\<forall>r \<in> set (seasonal_rates db1).
         package_id r = package_id high_rate \<and> is_active r = Some True \<longrightarrow>
         \<not> (\<exists>d. covers r d \<and> covers high_rate d))
   \<and> clash_free (seasonal_rates db2)"
    by blast
  have "peak_rate \<in> set (seasonal_rates db1)"
    by (simp add: db1_def)
  with r3 have "package_id peak_rate = package_id high_rate \<and> is_active peak_rate = Some True \<longrightarrow>
         \<not> (\<exists>d. covers peak_rate d \<and> covers high_rate d)"
    by blast
  then have r4: "\<not> clash peak_rate high_rate"
    by (simp add: clash_covers)
  from r1 r2 r3 r4 create_high_rate free show ?thesis
    by blast
qed

text \<open>
  What an update does for every request: 404 for an unknown row, \<open>TypeError\<close> for a
  date sent as \<open>null\<close>, 400 for dates out of order, \<open>IntegrityError\<close> for a \<open>null\<close> in a
  column that cannot hold one, and success otherwise.
\<close>

lemma update_seasonal_rate_cases:
  "update_seasonal_rate db rid u =
     (case find (\<lambda>r. rate_id r = rid) (seasonal_rates db) of
        None \<Rightarrow> Inl (HTTPException 404 ''Seasonal rate not found'')
      | Some r \<Rightarrow>
          if upd_start_date u = Null \<or> upd_end_date u = Null then Inl TypeError
          else if set_column (upd_start_date u) (start_date r)
                    \<ge> set_column (upd_end_date u) (end_date r)
          then Inl (HTTPException 400 ''Start date must be before end date'')
          else if upd_season_name u = Null \<or> upd_season_type u = Null
                    \<or> upd_price_multiplier u = Null
          then Inl IntegrityError
          else Inr (db\<lparr>seasonal_rates := write_back (apply_update u r) (seasonal_rates db)\<rparr>,
                    apply_update u r))"
  by (simp add: update_seasonal_rate_def update_data_get_def set_column_def
        not_null_violated_def Let_def
      split: option.splits update_field.splits)


text \<open>A date sent as \<open>null\<close> makes the comparison of the dates raise.\<close>

lemma update_null_start_raises:
  "update_seasonal_rate db2 ''B'' null_start = Inl TypeError"
  by (simp add: update_seasonal_rate_def update_data_get_def
        db2_def peak_rate_def high_rate_def null_start_def)



section \<open>The price on a travel date\<close>

text \<open>A fixed price other than 0 is the final price, whatever the multiplier.\<close>

lemma fixed_price_nonzero_wins:
  assumes "find (\<lambda>p. pkg_id p = pid) (packages db) = Some pkg"
    and "find (applicable pid d) (seasonal_rates db) = Some r"
    and "fixed_price r = Some f" and "f \<noteq> 0"
  shows "\<exists>resp. calculate_seasonal_price db pid d = Inr resp \<and> resp_final_price resp = f"
  using assms by (simp add: calculate_seasonal_price_def truthy_def)

text \<open>
  C3. The claim fails on the code for a fixed price of 0: the rate matches day 15 and
  carries the fixed price 0 and the multiplier 1.5, and the final price returned is
  1000 times 1.5 and not 0, because the test \<open>if seasonal_rate.fixed_price:\<close> takes
  0 for an absent price.
\<close>

theorem zero_fixed_price_ignored:
  "calculate_seasonal_price \<lparr>packages = [pkg1], seasonal_rates = [free_rate]\<rparr> ''P1'' 15
   = Inr \<lparr>resp_package_id = ''P1'', resp_travel_date = 15, resp_base_price = 1000,
          resp_seasonal_rate =
            Some \<lparr>ri_id = ''F'', ri_season_name = ''Promo'', ri_season_type = LOW,
                  ri_price_multiplier = 3 / 2, ri_fixed_price = Some 0\<rparr>,
          resp_final_price = 1500\<rparr>"
  by (simp add: calculate_seasonal_price_def applicable_def truthy_def pkg1_def free_rate_def)

text \<open>With no applicable rate the final price is the base price of the package.\<close>

lemma no_rate_base_price:
  assumes "find (\<lambda>p. pkg_id p = pid) (packages db) = Some pkg"
    and "find (applicable pid d) (seasonal_rates db) = None"
  shows "calculate_seasonal_price db pid d
    = Inr \<lparr>resp_package_id = pid, resp_travel_date = d, resp_base_price = base_price pkg,
           resp_seasonal_rate = None, resp_final_price = base_price pkg\<rparr>"
  using assms by (simp add: calculate_seasonal_price_def)

text \<open>
  C7. On day 25 no rate applies: the final price is the base price, as claimed, but the
  response carries no multiplier at all; its \<open>seasonal_rate\<close> is \<open>None\<close>.
\<close>

theorem no_rate_reports_no_multiplier:
  "calculate_seasonal_price db1 ''P1'' 25
   = Inr \<lparr>resp_package_id = ''P1'', resp_travel_date = 25, resp_base_price = 1000,
          resp_seasonal_rate = None, resp_final_price = 1000\<rparr>"
  by (simp add: calculate_seasonal_price_def applicable_def db1_def pkg1_def peak_rate_def)

end
